theory Spec2Isabelle
  imports Main "HOL-Library.Word" "HOL-Library.AList"
begin

unbundle bit_operations_syntax

section \<open>The ledger state (package wavelet)\<close>

subsection \<open>Data\<close>

type_synonym bytes = "8 word list"

text \<open>
  The errors the ledger state returns. The source builds them with \<open>errors.Errorf\<close> and
  \<open>errors.Wrapf\<close>; each constructor stands for one of those places.
\<close>

datatype error =
    HexDecodeError
  | AccountNotFound bytes
  | AccountDecodeFailed
  | NopSenderMissing string
  | SenderMissing string
  | ServiceError string
  | PutError bytes
  | NilAccount

text \<open>
  \<open>Account\<close>: the public key, the nonce (\<open>uint64\<close>, so \<open>Nonce++\<close> wraps) and the
  key-value state, whose \<open>Store\<close> returns the updated state.
\<close>

record account =
  PublicKey :: bytes
  Nonce :: "64 word"
  State :: "bytes \<rightharpoonup> bytes"

text \<open>\<open>Delta\<close>: the fields \<open>doApplyTransaction\<close> reads from a change.\<close>

record delta =
  Account :: bytes
  Key :: bytes
  NewValue :: bytes

text \<open>
  \<open>database.Transaction\<close>: the fields \<open>doApplyTransaction\<close> reads. \<open>TxNonce\<close> is the
  source's \<open>tx.Nonce\<close> (the name \<open>Nonce\<close> is the account's field here).
\<close>

record transaction =
  Sender :: string
  Tag :: string
  TxNonce :: "64 word"
  Payload :: bytes

text \<open>
  Modelled from the spec: the account codec (\<open>Account.MarshalBinary\<close> and
  \<open>Account.Unmarshal\<close> are not among the sources). A stored value is either the canonical
  encoding of a nonce and a state, which decodes to them, or bytes that do not decode. The
  public key of the encoding is the key the record is stored under: \<open>SaveAccount\<close> writes
  every record under \<open>account_ || PublicKey\<close> and \<open>LoadAccount\<close> builds the account with
  \<open>NewAccount(key)\<close> before it decodes into it.
\<close>

datatype encoded = AccountBytes "64 word" "bytes \<rightharpoonup> bytes" | Undecodable

text \<open>
  Modelled from the spec: the key-value store behind \<open>Ledger.Get\<close> and \<open>Ledger.Put\<close>
  (\<open>get(key) \<rightarrow> bytes | NotFound\<close>, \<open>put(key, value) \<rightarrow> () | IOError\<close>). \<open>kv\<close> is its
  content; \<open>put_fails\<close> tells for which keys a write returns the IO error (and writes
  nothing).
\<close>

record store =
  kv :: "bytes \<rightharpoonup> encoded"
  put_fails :: "bytes \<Rightarrow> bool"

definition Get :: "store \<Rightarrow> bytes \<Rightarrow> error + encoded" where
  "Get s k = (case kv s k of None \<Rightarrow> Inl (AccountNotFound k) | Some v \<Rightarrow> Inr v)"

definition Put :: "store \<Rightarrow> bytes \<Rightarrow> encoded \<Rightarrow> error option \<times> store" where
  "Put s k v = (if put_fails s k then (Some (PutError k), s) else (None, s\<lparr>kv := (kv s)(k \<mapsto> v)\<rparr>))"

text \<open>
  A service (transaction processor): \<open>service.Run(tx)\<close> returns the deltas and the pending
  transactions, or an error. The service holds the state it was created with
  (\<open>NewService(m, name)\<close>), so its result may depend on the store.
\<close>

type_synonym service = "store \<Rightarrow> transaction \<Rightarrow> error + (delta list \<times> transaction list)"

text \<open>\<open>state\<close>: the embedded ledger and the registered services.\<close>

record state =
  Ledger :: store
  services :: "service list"

subsection \<open>Helpers\<close>

text \<open>\<open>BucketAccounts = []byte("account_")\<close>.\<close>

definition BucketAccounts :: bytes where
  "BucketAccounts = [0x61, 0x63, 0x63, 0x6F, 0x75, 0x6E, 0x74, 0x5F]"

text \<open>
  Modelled from the spec: \<open>merge\<close> (not among the sources) concatenates the bucket tag and
  the key (store layout \<open>"account_" || public_key\<close>); \<open>writeString\<close> (not among the
  sources) turns the account id into the key of the working-set map, one key per id;
  \<open>NewAccount\<close> (not among the sources) is the fresh account of a public key, with nonce 0
  and an empty state.
\<close>

definition merge :: "bytes \<Rightarrow> bytes \<Rightarrow> bytes" where
  "merge a b = a @ b"

definition writeString :: "bytes \<Rightarrow> bytes" where
  "writeString b = b"

definition NewAccount :: "bytes \<Rightarrow> account" where
  "NewAccount key = \<lparr>PublicKey = key, Nonce = 0, State = Map.empty\<rparr>"

definition MarshalBinary :: "account \<Rightarrow> encoded" where
  "MarshalBinary a = AccountBytes (Nonce a) (State a)"

definition Unmarshal :: "account \<Rightarrow> encoded \<Rightarrow> error + account" where
  "Unmarshal a b =
     (case b of
        AccountBytes n st \<Rightarrow> Inr (a\<lparr>Nonce := n, State := st\<rparr>)
      | Undecodable \<Rightarrow> Inl AccountDecodeFailed)"

text \<open>
  \<open>hex.DecodeString\<close> of the Go library: two hexadecimal digits a byte; an odd length or
  a character that is no digit is an error.
\<close>

definition fromHexChar :: "char \<Rightarrow> 8 word option" where
  "fromHexChar c =
     (let n = (of_char c :: nat) in
      if 48 \<le> n \<and> n \<le> 57 then Some (of_nat (n - 48))
      else if 97 \<le> n \<and> n \<le> 102 then Some (of_nat (n - 97 + 10))
      else if 65 \<le> n \<and> n \<le> 70 then Some (of_nat (n - 65 + 10))
      else None)"

fun DecodeString :: "string \<Rightarrow> error + bytes" where
  "DecodeString [] = Inr []"
| "DecodeString [c] = Inl HexDecodeError"
| "DecodeString (c # d # rest) =
     (case (fromHexChar c, fromHexChar d) of
        (Some a, Some b) \<Rightarrow>
          (case DecodeString rest of
             Inl e \<Rightarrow> Inl e
           | Inr bs \<Rightarrow> Inr ((push_bit 4 a OR b) # bs))
      | _ \<Rightarrow> Inl HexDecodeError)"

subsection \<open>LoadAccount and SaveAccount\<close>

definition LoadAccount :: "store \<Rightarrow> bytes \<Rightarrow> error + account" where
  "LoadAccount s key =
     (case Get s (merge BucketAccounts key) of
        Inl err \<Rightarrow> Inl (AccountNotFound key)
      | Inr bs \<Rightarrow>
          (case Unmarshal (NewAccount key) bs of
             Inl err \<Rightarrow> Inl AccountDecodeFailed
           | Inr account \<Rightarrow> Inr account))"

text \<open>\<open>SaveAccount\<close> returns the error of \<open>Put\<close>; the deltas are not reported yet.\<close>

definition SaveAccount :: "store \<Rightarrow> account \<Rightarrow> delta list \<Rightarrow> error option \<times> store" where
  "SaveAccount s account deltas =
     (case Put s (merge BucketAccounts (PublicKey account)) (MarshalBinary account) of
        (Some err, s') \<Rightarrow> (Some err, s')
      | (None, s') \<Rightarrow> (None, s'))"

subsection \<open>doApplyTransaction\<close>

text \<open>
  The loop over the registered services. \<open>deltas\<close> and \<open>pendingTransactions\<close> are the
  variables declared before the loop. Inside the loop, \<open>deltas, pending, err :=
  service.Run(tx)\<close> declares a new \<open>deltas\<close> for the iteration: the statement
  \<open>deltas = append(deltas, deltas...)\<close> assigns to that one (\<open>inner\<close> below), which ends
  with the iteration, and the outer \<open>deltas\<close> is passed on as it was.
\<close>

fun runServices ::
  "service list \<Rightarrow> store \<Rightarrow> transaction \<Rightarrow> delta list \<Rightarrow> transaction list \<Rightarrow>
   error + (delta list \<times> transaction list)" where
  "runServices [] s tx deltas pendingTransactions = Inr (deltas, pendingTransactions)"
| "runServices (service # rest) s tx deltas pendingTransactions =
     (case service s tx of
        Inl err \<Rightarrow> Inl err
      | Inr (inner, pending) \<Rightarrow>
          (let inner = inner @ inner in
           runServices rest s tx deltas
             (if length pending > 0 then pendingTransactions @ pending
              else pendingTransactions)))"

text \<open>
  The working set \<open>accounts\<close> (a Go map of account pointers) is an association list in
  insertion order; \<open>accountDeltas\<close> is a map to delta lists, \<open>[]\<close> for a missing key.
  The loop over the deltas: the account of a change is taken from the working set, or loaded
  from the store (a fresh account when the load fails) and entered in it; the change is
  stored in its state, which the working set sees through the pointer.
\<close>

fun applyDeltas ::
  "store \<Rightarrow> delta list \<Rightarrow> (bytes \<times> account) list \<Rightarrow> (bytes \<Rightarrow> delta list) \<Rightarrow>
   (bytes \<times> account) list \<times> (bytes \<Rightarrow> delta list)" where
  "applyDeltas s [] accounts accountDeltas = (accounts, accountDeltas)"
| "applyDeltas s (change # rest) accounts accountDeltas =
     (let accountID = writeString (Account change);
          (account, accounts) =
            (case map_of accounts accountID of
               Some account \<Rightarrow> (account, accounts)
             | None \<Rightarrow>
                 (let account =
                        (case LoadAccount s (Account change) of
                           Inl err \<Rightarrow> NewAccount (Account change)
                         | Inr account \<Rightarrow> account)
                  in (account, AList.update accountID account accounts)));
          account = account\<lparr>State := (State account)(Key change \<mapsto> NewValue change)\<rparr>
      in applyDeltas s rest (AList.update accountID account accounts)
           (accountDeltas(accountID := accountDeltas accountID @ [change])))"

text \<open>
  The loop that saves the working set. The value \<open>SaveAccount\<close> returns is not looked at.
  Go leaves the order of a map's iteration open; the model saves in insertion order (the
  keys of the working set are distinct, so the order does not change the store).
\<close>

fun saveAll :: "store \<Rightarrow> (bytes \<times> account) list \<Rightarrow> (bytes \<Rightarrow> delta list) \<Rightarrow> store" where
  "saveAll s [] accountDeltas = s"
| "saveAll s ((accountID, account) # rest) accountDeltas =
     saveAll (snd (SaveAccount s account (accountDeltas accountID))) rest accountDeltas"

definition doApplyTransaction ::
  "state \<Rightarrow> transaction \<Rightarrow> (error + transaction list) \<times> state" where
  "doApplyTransaction s tx =
     (case DecodeString (Sender tx) of
        Inl err \<Rightarrow> (Inl err, s)
      | Inr senderID \<Rightarrow>
          if Tag tx = ''nop'' then
            (case LoadAccount (Ledger s) senderID of
               Inl err \<Rightarrow> (Inl (NopSenderMissing (Sender tx)), s)
             | Inr account \<Rightarrow>
                 (let account = account\<lparr>Nonce := Nonce account + 1\<rparr>
                  in (Inr [], s\<lparr>Ledger := snd (SaveAccount (Ledger s) account [])\<rparr>)))
          else
            (case runServices (services s) (Ledger s) tx [] [] of
               Inl err \<Rightarrow> (Inl err, s)
             | Inr (deltas, pendingTransactions) \<Rightarrow>
                 (case (case LoadAccount (Ledger s) senderID of
                          Inl err \<Rightarrow>
                            if TxNonce tx = 0 then Inr (NewAccount senderID)
                            else Inl (SenderMissing (Sender tx))
                        | Inr sender \<Rightarrow> Inr sender) of
                    Inl err \<Rightarrow> (Inl err, s)
                  | Inr sender \<Rightarrow>
                      (let accounts = [(writeString senderID, sender)];
                           (accounts, accountDeltas) =
                             applyDeltas (Ledger s) deltas accounts (\<lambda>accountID. [])
                       in (case map_of accounts (writeString senderID) of
                             None \<Rightarrow> (Inl NilAccount, s)
                           | Some account \<Rightarrow>
                               (let accounts =
                                      AList.update (writeString senderID)
                                        (account\<lparr>Nonce := Nonce account + 1\<rparr>) accounts
                                in (Inr pendingTransactions,
                                    s\<lparr>Ledger := saveAll (Ledger s) accounts accountDeltas\<rparr>)))))))"

subsection \<open>applyTransaction\<close>

text \<open>
  The queue loop of \<open>applyTransaction\<close>. A service may emit pending transactions for ever,
  so the loop has fuel, one unit a transaction, and \<open>None\<close> is the loop that has not
  returned. The third component of the result lists the transactions that were applied
  without an error, in the order of their application (it is not in the source; the properties
  of the order speak of it).
\<close>

fun applyLoop ::
  "nat \<Rightarrow> state \<Rightarrow> transaction list \<Rightarrow> transaction list \<Rightarrow>
   (error option \<times> state \<times> transaction list) option" where
  "applyLoop fuel s [] applied = Some (None, s, applied)"
| "applyLoop 0 s (tx # pending) applied = None"
| "applyLoop (Suc fuel) s (tx # pending) applied =
     (case doApplyTransaction s tx of
        (Inl err, s') \<Rightarrow> Some (Some err, s', applied)
      | (Inr new, s') \<Rightarrow> applyLoop fuel s' (pending @ new) (applied @ [tx]))"

definition applyTransaction ::
  "nat \<Rightarrow> state \<Rightarrow> transaction \<Rightarrow> (error option \<times> state \<times> transaction list) option" where
  "applyTransaction fuel s tx = applyLoop fuel s [tx] []"

section \<open>The peer protocol handlers (package node)\<close>

subsection \<open>Data\<close>

text \<open>
  \<open>wavelet.Transaction\<close> as the handlers read it: its id and its view id (\<open>uint64\<close>).
\<close>

record wavelet_transaction =
  ID :: bytes
  ViewID :: "64 word"

text \<open>
  The error \<open>ledger.ReceiveTransaction\<close> returns, as the handlers test it:
  \<open>errors.Cause(err) == wavelet.VoteAccepted\<close>.
\<close>

datatype vote = VoteAccepted | VoteRejected string | NoVote

text \<open>
  \<open>wavelet.Ledger\<close> is not among the sources: the handlers get its operations as an
  interface over a ledger state \<open>'l\<close> of any type. \<open>Preferred\<close> is
  \<open>ledger.Resolver().Preferred()\<close>, \<open>None\<close> for \<open>nil\<close>; \<open>ReceiveTransaction\<close> returns
  its error and the ledger it leaves; \<open>DumpDiff\<close> is \<open>ledger.Accounts.DumpDiff\<close>.
\<close>

record 'l ledger_ops =
  Root :: "'l \<Rightarrow> wavelet_transaction"
  LedgerViewID :: "'l \<Rightarrow> 64 word"
  Preferred :: "'l \<Rightarrow> wavelet_transaction option"
  ReceiveTransaction :: "'l \<Rightarrow> wavelet_transaction \<Rightarrow> vote \<times> 'l"
  DumpDiff :: "'l \<Rightarrow> 64 word \<Rightarrow> bytes"

text \<open>
  Modelled from the spec: the syncer (not among the sources). \<open>resolverPreferred\<close> is
  \<open>syncer.resolver.Preferred()\<close>, set by \<open>syncer.resolver.Prefer\<close>; \<open>recordedRoots\<close>
  holds what \<open>syncer.recordRootFromAccount\<close> has recorded (peer id and root id, the latest
  last), "for future quorum decisions".
\<close>

record syncer =
  resolverPreferred :: "wavelet_transaction option"
  recordedRoots :: "(bytes \<times> bytes) list"

definition Prefer :: "syncer \<Rightarrow> wavelet_transaction \<Rightarrow> syncer" where
  "Prefer sy tx = sy\<lparr>resolverPreferred := Some tx\<rparr>"

definition recordRootFromAccount :: "syncer \<Rightarrow> bytes \<Rightarrow> bytes \<Rightarrow> syncer" where
  "recordRootFromAccount sy peerID rootID = sy\<lparr>recordedRoots := recordedRoots sy @ [(peerID, rootID)]\<rparr>"

text \<open>
  The messages. The fields keep their names behind \<open>req_\<close> and \<open>res_\<close>; a response
  field that is a pointer is an option, \<open>None\<close> for \<open>nil\<close>.
\<close>

record SyncViewRequest =
  req_root :: wavelet_transaction

record SyncViewResponse =
  res_root :: "wavelet_transaction option"

record QueryRequest =
  req_tx :: wavelet_transaction

record QueryResponse =
  res_preferred :: "wavelet_transaction option"

record SyncDiffMetadataRequest =
  req_viewID :: "64 word"

record SyncDiffMetadataResponse =
  res_latestViewID :: "64 word"
  res_chunkHashes :: "bytes list"

record SyncDiffChunkRequest =
  req_chunkHash :: bytes

record SyncDiffChunkResponse =
  res_diff :: bytes
  res_found :: bool

definition syncChunkSize :: nat where
  "syncChunkSize = 1048576"

text \<open>
  Modelled from the spec: the per-peer chunk cache (\<open>newLRU\<close>, \<open>put\<close> and \<open>load\<close> are not
  among the sources), a least-recently-used cache of a fixed capacity. The entries are
  kept with the most recently used first; \<open>put\<close> enters or replaces a key and evicts beyond
  the capacity; \<open>load\<close> returns the value of a resident key and marks it used.
\<close>

record lru =
  capacity :: nat
  entries :: "(bytes \<times> bytes) list"

definition newLRU :: "nat \<Rightarrow> lru" where
  "newLRU n = \<lparr>capacity = n, entries = []\<rparr>"

definition put :: "lru \<Rightarrow> bytes \<Rightarrow> bytes \<Rightarrow> lru" where
  "put c k v = c\<lparr>entries := take (capacity c) ((k, v) # filter (\<lambda>e. fst e \<noteq> k) (entries c))\<rparr>"

definition load :: "lru \<Rightarrow> bytes \<Rightarrow> bytes option \<times> lru" where
  "load c k =
     (case map_of (entries c) k of
        None \<Rightarrow> (None, c)
      | Some v \<Rightarrow> (Some v, c\<lparr>entries := (k, v) # filter (\<lambda>e. fst e \<noteq> k) (entries c)\<rparr>))"

subsection \<open>The sync-diff handlers\<close>

text \<open>The Go slice expression \<open>diff[i:end]\<close>, for \<open>i \<le> end \<le> len(diff)\<close>.\<close>

definition slice :: "bytes \<Rightarrow> nat \<Rightarrow> nat \<Rightarrow> bytes" where
  "slice bs i end = take (end - i) (drop i bs)"

text \<open>
  The loop of \<open>handleSyncDiffMetadataRequest\<close> over the diff, from index \<open>i\<close>.
  \<open>Sum256\<close> is \<open>blake2b.Sum256\<close>, a function of the bytes, taken as a parameter.
\<close>

function chunkLoop ::
  "(bytes \<Rightarrow> bytes) \<Rightarrow> bytes \<Rightarrow> nat \<Rightarrow> lru \<Rightarrow> bytes list \<Rightarrow> lru \<times> bytes list" where
  "chunkLoop Sum256 diff i chunkCache chunkHashes =
     (if i < length diff then
        (let end = i + syncChunkSize;
             end = (if end > length diff then length diff else end);
             hash = Sum256 (slice diff i end)
         in chunkLoop Sum256 diff (i + syncChunkSize)
              (put chunkCache hash (slice diff i end)) (chunkHashes @ [hash]))
      else (chunkCache, chunkHashes))"
  by pat_completeness auto
termination
  by (relation "measure (\<lambda>(Sum256, diff, i, chunkCache, chunkHashes). length diff - i)")
     (auto simp: syncChunkSize_def)

definition handleSyncDiffMetadataRequest ::
  "'l ledger_ops \<Rightarrow> (bytes \<Rightarrow> bytes) \<Rightarrow> 'l \<Rightarrow> SyncDiffMetadataRequest \<Rightarrow> lru \<Rightarrow>
   SyncDiffMetadataResponse \<times> lru" where
  "handleSyncDiffMetadataRequest ops Sum256 ledger req chunkCache =
     (let diff = DumpDiff ops ledger (req_viewID req);
          (chunkCache, chunkHashes) = chunkLoop Sum256 diff 0 chunkCache []
      in (\<lparr>res_latestViewID = LedgerViewID ops ledger, res_chunkHashes = chunkHashes\<rparr>, chunkCache))"

definition handleSyncDiffChunkRequest ::
  "SyncDiffChunkRequest \<Rightarrow> lru \<Rightarrow> SyncDiffChunkResponse \<times> lru" where
  "handleSyncDiffChunkRequest req chunkCache =
     (case load chunkCache (req_chunkHash req) of
        (Some chunk, chunkCache) \<Rightarrow> (\<lparr>res_diff = chunk, res_found = True\<rparr>, chunkCache)
      | (None, chunkCache) \<Rightarrow> (\<lparr>res_diff = [], res_found = False\<rparr>, chunkCache))"

text \<open>
  The sync-diff requests of one peer, served one after the other on that peer's cache.
  A metadata request comes with the ledger as it is when the request is served.
\<close>

datatype 'l sync_request =
    DiffMetadata 'l SyncDiffMetadataRequest
  | DiffChunk SyncDiffChunkRequest

fun serveSync ::
  "'l ledger_ops \<Rightarrow> (bytes \<Rightarrow> bytes) \<Rightarrow> lru \<Rightarrow> 'l sync_request list \<Rightarrow> lru" where
  "serveSync ops Sum256 chunkCache [] = chunkCache"
| "serveSync ops Sum256 chunkCache (DiffMetadata ledger req # reqs) =
     serveSync ops Sum256 (snd (handleSyncDiffMetadataRequest ops Sum256 ledger req chunkCache)) reqs"
| "serveSync ops Sum256 chunkCache (DiffChunk req # reqs) =
     serveSync ops Sum256 (snd (handleSyncDiffChunkRequest req chunkCache)) reqs"

subsection \<open>The sync-view and query handlers\<close>

text \<open>
  \<open>handleSyncViewRequest\<close>. \<open>AssertValidTransaction\<close> (not among the sources) is a
  parameter: \<open>True\<close> where it returns no error. The response is the one the deferred
  \<open>SendMessageAsync\<close> sends when the handler returns.
\<close>

definition handleSyncViewRequest ::
  "'l ledger_ops \<Rightarrow> (wavelet_transaction \<Rightarrow> bool) \<Rightarrow> 'l \<Rightarrow> syncer \<Rightarrow> bytes \<Rightarrow>
   SyncViewRequest \<Rightarrow> SyncViewResponse \<times> syncer" where
  "handleSyncViewRequest ops AssertValidTransaction ledger sy peerID req =
     (let res = (case resolverPreferred sy of
                   None \<Rightarrow> \<lparr>res_root = Some (Root ops ledger)\<rparr>
                 | Some preferred \<Rightarrow> \<lparr>res_root = Some preferred\<rparr>)
      in if \<not> AssertValidTransaction (req_root req) then (res, sy)
         else
           (let (res, sy) =
                  (if LedgerViewID ops ledger < ViewID (req_root req) \<and> resolverPreferred sy = None
                   then (\<lparr>res_root = Some (req_root req)\<rparr>, Prefer sy (req_root req))
                   else (res, sy))
            in (res, recordRootFromAccount sy peerID (ID (req_root req)))))"

text \<open>
  \<open>handleQueryRequest\<close>. \<open>paused\<close> is \<open>Broadcaster(peer.Node()).Paused.Load()\<close>. The
  third component of the result lists the calls of \<open>ledger.ReceiveTransaction\<close> the
  handler has made.
\<close>

definition handleQueryRequest ::
  "'l ledger_ops \<Rightarrow> bool \<Rightarrow> 'l \<Rightarrow> QueryRequest \<Rightarrow>
   QueryResponse \<times> 'l \<times> wavelet_transaction list" where
  "handleQueryRequest ops paused ledger req =
     (let res = \<lparr>res_preferred = None\<rparr>
      in if paused then (res, ledger, [])
         else
           (let res =
                  (if ViewID (req_tx req) = LedgerViewID ops ledger - 1
                   then res\<lparr>res_preferred := Some (Root ops ledger)\<rparr>
                   else (case Preferred ops ledger of
                           Some preferred \<Rightarrow> res\<lparr>res_preferred := Some preferred\<rparr>
                         | None \<Rightarrow> res));
                (err, ledger) = ReceiveTransaction ops ledger (req_tx req)
            in ((if err = VoteAccepted then res\<lparr>res_preferred := Some (req_tx req)\<rparr> else res),
                ledger, [req_tx req])))"

section \<open>Notions the properties are stated with\<close>

text \<open>
  The breadth-first order, as the specification words it: the root first, then each
  generation of pending transactions in the order they were emitted, before any
  transaction of the next generation. \<open>generation\<close> is what is left of the generation
  being applied, \<open>next\<close> collects what its transactions emit; when the generation is
  done, the collected transactions are the new generation. Fuel is counted as in
  \<open>applyLoop\<close>, one unit a transaction.
\<close>

fun applyGenerations ::
  "nat \<Rightarrow> state \<Rightarrow> transaction list \<Rightarrow> transaction list \<Rightarrow> transaction list \<Rightarrow>
   (error option \<times> state \<times> transaction list) option" where
  "applyGenerations fuel s [] [] applied = Some (None, s, applied)"
| "applyGenerations fuel s [] (t # next) applied = applyGenerations fuel s (t # next) [] applied"
| "applyGenerations 0 s (t # generation) next applied = None"
| "applyGenerations (Suc fuel) s (t # generation) next applied =
     (case doApplyTransaction s t of
        (Inl err, s') \<Rightarrow> Some (Some err, s', applied)
      | (Inr new, s') \<Rightarrow> applyGenerations fuel s' generation (next @ new) (applied @ [t]))"

definition applyBreadthFirst ::
  "nat \<Rightarrow> state \<Rightarrow> transaction \<Rightarrow> (error option \<times> state \<times> transaction list) option" where
  "applyBreadthFirst fuel s t = applyGenerations fuel s [t] [] []"

text \<open>The state after the transactions of a list have been applied one after the other.\<close>

definition commitAll :: "state \<Rightarrow> transaction list \<Rightarrow> state" where
  "commitAll s ts = foldl (\<lambda>s t. snd (doApplyTransaction s t)) s ts"

text \<open>The nonce stored for a public key: \<open>None\<close> when no account loads from the store.\<close>

definition storedNonce :: "store \<Rightarrow> bytes \<Rightarrow> 64 word option" where
  "storedNonce s key =
     (case LoadAccount s key of Inl err \<Rightarrow> None | Inr account \<Rightarrow> Some (Nonce account))"

text \<open>
  The consecutive chunks of a byte string, each of \<open>n\<close> bytes but the last, which may be
  shorter.
\<close>

function chunksOf :: "nat \<Rightarrow> bytes \<Rightarrow> bytes list" where
  "chunksOf n bs = (if n = 0 \<or> bs = [] then [] else take n bs # chunksOf n (drop n bs))"
  by pat_completeness auto
termination
  by (relation "measure (\<lambda>(n, bs). length bs)") auto

text \<open>A cache whose every entry is stored under the hash of its bytes.\<close>

definition hashed :: "(bytes \<Rightarrow> bytes) \<Rightarrow> lru \<Rightarrow> bool" where
  "hashed Sum256 c = list_all (\<lambda>e. Sum256 (snd e) = fst e) (entries c)"

text \<open>A hash is resident in the cache when an entry is stored under it.\<close>

definition resident :: "lru \<Rightarrow> bytes \<Rightarrow> bool" where
  "resident c h = (map_of (entries c) h \<noteq> None)"

section \<open>Inputs of the examples\<close>

text \<open>
  Stores: an empty one; one that holds the account \<open>01\<close> with nonce 5; the same with
  every write failing; one that holds the account \<open>01\<close> with the greatest nonce.
\<close>

definition openStore :: store where
  "openStore = \<lparr>kv = Map.empty, put_fails = (\<lambda>k. False)\<rparr>"

definition oneAccountStore :: store where
  "oneAccountStore =
     \<lparr>kv = [merge BucketAccounts [0x01] \<mapsto> AccountBytes 5 Map.empty], put_fails = (\<lambda>k. False)\<rparr>"

definition failingStore :: store where
  "failingStore =
     \<lparr>kv = [merge BucketAccounts [0x01] \<mapsto> AccountBytes 5 Map.empty], put_fails = (\<lambda>k. True)\<rparr>"

definition lastNonceStore :: store where
  "lastNonceStore =
     \<lparr>kv = [merge BucketAccounts [0x01] \<mapsto> AccountBytes 0xFFFFFFFFFFFFFFFF Map.empty],
      put_fails = (\<lambda>k. False)\<rparr>"

text \<open>
  Services: one that emits a delta for the key \<open>k\<close> of the account \<open>01\<close>; one that emits
  a pending nop transaction of the sender \<open>02\<close>; one that returns an error; one that emits
  two transactions for the tag \<open>a\<close> and one for each of those.
\<close>

definition emitDelta :: service where
  "emitDelta s t = Inr ([\<lparr>Account = [0x01], Key = [0x6B], NewValue = [0x76]\<rparr>], [])"

definition emitPendingNop :: service where
  "emitPendingNop s t =
     Inr ([], [\<lparr>Sender = ''02'', Tag = ''nop'', TxNonce = 0, Payload = []\<rparr>])"

definition abortingService :: service where
  "abortingService s t = Inl (ServiceError ''abort'')"

definition tagged :: "string \<Rightarrow> transaction" where
  "tagged g = \<lparr>Sender = ''01'', Tag = g, TxNonce = 0, Payload = []\<rparr>"

definition fanOut :: service where
  "fanOut s t =
     (if Tag t = ''a'' then Inr ([], [tagged ''b'', tagged ''c''])
      else if Tag t = ''b'' then Inr ([], [tagged ''d''])
      else if Tag t = ''c'' then Inr ([], [tagged ''e''])
      else Inr ([], []))"

text \<open>Transactions of the sender \<open>01\<close>: a nop, a transfer with nonce 0, one with nonce 7.\<close>

definition nopTx :: transaction where
  "nopTx = \<lparr>Sender = ''01'', Tag = ''nop'', TxNonce = 0, Payload = []\<rparr>"

definition transferTx :: transaction where
  "transferTx = \<lparr>Sender = ''01'', Tag = ''transfer'', TxNonce = 0, Payload = []\<rparr>"

definition lateTx :: transaction where
  "lateTx = \<lparr>Sender = ''01'', Tag = ''transfer'', TxNonce = 7, Payload = []\<rparr>"

text \<open>
  For the handlers: a ledger that is just its root transaction, two validators, two roots,
  a syncer with no preference, and a stand-in for the hash function.
\<close>

definition rootLedger :: "wavelet_transaction ledger_ops" where
  "rootLedger =
     \<lparr>Root = (\<lambda>l. l), LedgerViewID = ViewID, Preferred = (\<lambda>l. None),
      ReceiveTransaction = (\<lambda>l t. (VoteAccepted, t)), DumpDiff = (\<lambda>l v. [7, 8, 9])\<rparr>"

definition acceptAll :: "wavelet_transaction \<Rightarrow> bool" where
  "acceptAll t = True"

definition rejectAll :: "wavelet_transaction \<Rightarrow> bool" where
  "rejectAll t = False"

definition ourRoot :: wavelet_transaction where
  "ourRoot = \<lparr>ID = [0x0A], ViewID = 1\<rparr>"

definition peerRoot :: wavelet_transaction where
  "peerRoot = \<lparr>ID = [0x0B], ViewID = 2\<rparr>"

definition noPreference :: syncer where
  "noPreference = \<lparr>resolverPreferred = None, recordedRoots = []\<rparr>"

definition lengthSum :: "bytes \<Rightarrow> bytes" where
  "lengthSum bs = [of_nat (length bs)]"

section \<open>Properties of the ledger state\<close>

subsection \<open>Auxiliary facts\<close>

lemmas store_defs =
  LoadAccount_def SaveAccount_def Get_def Put_def merge_def BucketAccounts_def writeString_def
  NewAccount_def MarshalBinary_def Unmarshal_def fromHexChar_def

lemma runServices_deltas:
  "runServices svcs s t deltas pending = Inr (deltas', pending') \<Longrightarrow> deltas' = deltas"
  by (induction svcs arbitrary: pending) (auto split: sum.splits prod.splits if_splits simp: Let_def)

lemma LoadAccount_PublicKey: "LoadAccount s key = Inr a \<Longrightarrow> PublicKey a = key"
  by (auto simp: LoadAccount_def Unmarshal_def NewAccount_def split: sum.splits encoded.splits)

lemma LoadAccount_SaveAccount:
  "\<not> put_fails s (merge BucketAccounts (PublicKey a)) \<Longrightarrow>
   LoadAccount (snd (SaveAccount s a deltas)) (PublicKey a) = Inr a"
  by (simp add: LoadAccount_def SaveAccount_def Put_def Get_def MarshalBinary_def Unmarshal_def
      NewAccount_def)

lemma doApply_error_unchanged:
  "fst (doApplyTransaction s t) = Inl e \<Longrightarrow> snd (doApplyTransaction s t) = s"
  by (auto simp: doApplyTransaction_def Let_def split: sum.splits prod.splits if_splits option.splits)

lemma doApply_nop:
  assumes "Tag t = ''nop''" "DecodeString (Sender t) = Inr senderID"
    "LoadAccount (Ledger s) senderID = Inr a"
  shows "doApplyTransaction s t =
    (Inr [], s\<lparr>Ledger := snd (SaveAccount (Ledger s) (a\<lparr>Nonce := Nonce a + 1\<rparr>) [])\<rparr>)"
  using assms by (simp add: doApplyTransaction_def)

lemma doApply_nop_missing:
  assumes "Tag t = ''nop''" "DecodeString (Sender t) = Inr senderID"
    "LoadAccount (Ledger s) senderID = Inl e"
  shows "doApplyTransaction s t = (Inl (NopSenderMissing (Sender t)), s)"
  using assms by (simp add: doApplyTransaction_def)


lemma doApply_sender_missing:
  assumes "Tag t \<noteq> ''nop''" "DecodeString (Sender t) = Inr senderID"
    "runServices (services s) (Ledger s) t [] [] = Inr (deltas, pending)"
    "LoadAccount (Ledger s) senderID = Inl e" "TxNonce t \<noteq> 0"
  shows "doApplyTransaction s t = (Inl (SenderMissing (Sender t)), s)"
  using assms by (simp add: doApplyTransaction_def)

lemma doApply_commit:
  assumes "Tag t \<noteq> ''nop''" "DecodeString (Sender t) = Inr senderID"
    "runServices (services s) (Ledger s) t [] [] = Inr (deltas, pending)"
    "(case LoadAccount (Ledger s) senderID of
        Inl e \<Rightarrow> if TxNonce t = 0 then Inr (NewAccount senderID) else Inl (SenderMissing (Sender t))
      | Inr sender \<Rightarrow> Inr sender) = Inr sender"
  shows "doApplyTransaction s t =
    (Inr pending, s\<lparr>Ledger := snd (SaveAccount (Ledger s) (sender\<lparr>Nonce := Nonce sender + 1\<rparr>) [])\<rparr>)"
proof -
  from assms(3) have "deltas = []" by (rule runServices_deltas)
  with assms show ?thesis by (simp add: doApplyTransaction_def)
qed

lemma applyLoop_generations:
  "applyLoop fuel s (generation @ next) applied = applyGenerations fuel s generation next applied"
  by (induction fuel s generation "next" applied rule: applyGenerations.induct)
     (auto split: sum.splits prod.splits)

lemma applyLoop_error_state:
  "applyLoop fuel s q applied = Some (Some err, s', applied') \<Longrightarrow>
   \<exists>ts. applied' = applied @ ts \<and> s' = commitAll s ts"
proof (induction fuel s q applied rule: applyLoop.induct)
  case (1 fuel s applied)
  then show ?case by simp
next
  case (2 s t pending applied)
  then show ?case by simp
next
  case (3 fuel s t pending applied)
  show ?case
  proof (cases "doApplyTransaction s t")
    case (Pair r s1)
    show ?thesis
    proof (cases r)
      case (Inl e)
      with Pair have "snd (doApplyTransaction s t) = s"
        using doApply_error_unchanged [of s t e] by simp
      with Pair Inl 3(2) show ?thesis by (auto simp: commitAll_def)
    next
      case (Inr new)
      with Pair 3(2) have
        "applyLoop fuel s1 (pending @ new) (applied @ [t]) = Some (Some err, s', applied')"
        by simp
      from 3(1) [OF Pair [symmetric] Inr this] obtain ts where
        "applied' = (applied @ [t]) @ ts" "s' = commitAll s1 ts" by blast
      with Pair show ?thesis
        by (intro exI [of _ "t # ts"]) (simp add: commitAll_def)
    qed
  qed
qed

lemmas example_defs =
  openStore_def oneAccountStore_def failingStore_def lastNonceStore_def emitDelta_def
  emitPendingNop_def abortingService_def tagged_def fanOut_def nopTx_def transferTx_def
  lateTx_def

subsection \<open>Deltas\<close>

text \<open>
  C1. The deltas a service emits are to be accumulated and applied to the working set, so
  that after the commit the account of a delta, loaded from the store, holds the new value
  under the delta's key. The code does not do so: the deltas of \<open>service.Run\<close> are bound
  to a variable of the loop's body and never reach the \<open>deltas\<close> the working set is built
  from. With the one service \<open>emitDelta\<close>, which emits the delta (account \<open>01\<close>, key
  \<open>k\<close>, new value \<open>v\<close>), the transfer of the sender \<open>01\<close> is applied without an error,
  and the account \<open>01\<close> loaded from the store afterwards has no value under \<open>k\<close>.
\<close>

theorem deltas_not_applied:
  "fst (doApplyTransaction \<lparr>Ledger = openStore, services = [emitDelta]\<rparr> transferTx) = Inr [] \<and>
   (case LoadAccount
           (Ledger (snd (doApplyTransaction \<lparr>Ledger = openStore, services = [emitDelta]\<rparr> transferTx)))
           [0x01] of
      Inl e \<Rightarrow> False
    | Inr a \<Rightarrow> State a [0x6B] = None \<and> State a [0x6B] \<noteq> Some [0x76])"
  by (simp add: doApplyTransaction_def example_defs store_defs)

subsection \<open>Failure and the store\<close>

text \<open>
  C2, as stated: if \<open>applyTransaction\<close> returns an error, no account record written by any
  part of the call survives. It fails where a pending transaction fails after the
  transaction that emitted it has been committed: the transfer of the sender \<open>01\<close> emits a
  nop of the sender \<open>02\<close>, which has no account; \<open>applyTransaction\<close> returns the error
  of the nop, and the record of \<open>01\<close> written for the transfer is in the store.
\<close>

theorem apply_error_keeps_writes:
  "(case applyTransaction 2 \<lparr>Ledger = openStore, services = [emitPendingNop]\<rparr> transferTx of
      Some (Some err, s', applied) \<Rightarrow>
        LoadAccount (Ledger s') [0x01] \<noteq> LoadAccount openStore [0x01]
    | _ \<Rightarrow> False)"
  by (simp add: applyTransaction_def numeral_2_eq_2 doApplyTransaction_def example_defs store_defs)

text \<open>
  C2, amended: a call of \<open>doApplyTransaction\<close> that returns an error writes nothing. So
  when \<open>applyTransaction\<close> returns an error, the state is the one left by the transactions
  applied before the failing one, whose records stay; it is the state before the call when
  the root transaction itself is the one that fails.
\<close>

theorem apply_error_state:
  assumes "applyTransaction fuel s t = Some (Some err, s', applied)"
  shows "s' = commitAll s applied \<and>
         (fst (doApplyTransaction s t) = Inl e \<longrightarrow> applied = [] \<and> s' = s)"
proof
  from assms applyLoop_error_state [of fuel s "[t]" "[]" err s' applied]
  show "s' = commitAll s applied" by (simp add: applyTransaction_def)
next
  show "fst (doApplyTransaction s t) = Inl e \<longrightarrow> applied = [] \<and> s' = s"
  proof
    assume e: "fst (doApplyTransaction s t) = Inl e"
    then have u: "snd (doApplyTransaction s t) = s" by (rule doApply_error_unchanged)
    from assms obtain n where n: "fuel = Suc n"
      by (cases fuel) (simp_all add: applyTransaction_def)
    from e u have "doApplyTransaction s t = (Inl e, s)" by (metis prod.collapse)
    with assms n show "applied = [] \<and> s' = s" by (simp add: applyTransaction_def)
  qed
qed

theorem apply_error_state_witness:
  "applyTransaction 2 \<lparr>Ledger = openStore, services = [emitPendingNop]\<rparr> transferTx =
     Some (Some (NopSenderMissing ''02''),
           \<lparr>Ledger = \<lparr>kv = [merge BucketAccounts [0x01] \<mapsto> AccountBytes 1 Map.empty],
                      put_fails = (\<lambda>k. False)\<rparr>,
            services = [emitPendingNop]\<rparr>,
           [transferTx]) \<and>
   \<lparr>Ledger = \<lparr>kv = [merge BucketAccounts [0x01] \<mapsto> AccountBytes 1 Map.empty],
              put_fails = (\<lambda>k. False)\<rparr>,
    services = [emitPendingNop]\<rparr> =
     commitAll \<lparr>Ledger = openStore, services = [emitPendingNop]\<rparr> [transferTx] \<and>
   applyTransaction 1 \<lparr>Ledger = openStore, services = []\<rparr> nopTx =
     Some (Some (NopSenderMissing ''01''), \<lparr>Ledger = openStore, services = []\<rparr>, []) \<and>
   fst (doApplyTransaction \<lparr>Ledger = openStore, services = []\<rparr> nopTx) = Inl (NopSenderMissing ''01'')"
proof -
  have a: "applyTransaction 2 \<lparr>Ledger = openStore, services = [emitPendingNop]\<rparr> transferTx =
     Some (Some (NopSenderMissing ''02''),
           \<lparr>Ledger = \<lparr>kv = [merge BucketAccounts [0x01] \<mapsto> AccountBytes 1 Map.empty],
                      put_fails = (\<lambda>k. False)\<rparr>,
            services = [emitPendingNop]\<rparr>,
           [transferTx])"
    by (simp add: applyTransaction_def numeral_2_eq_2 doApplyTransaction_def example_defs store_defs)
  have b: "applyTransaction 1 \<lparr>Ledger = openStore, services = []\<rparr> nopTx =
     Some (Some (NopSenderMissing ''01''), \<lparr>Ledger = openStore, services = []\<rparr>, [])"
    by (simp add: applyTransaction_def doApplyTransaction_def example_defs store_defs)
  have c: "fst (doApplyTransaction \<lparr>Ledger = openStore, services = []\<rparr> nopTx) =
     Inl (NopSenderMissing ''01'')"
    by (simp add: doApplyTransaction_def example_defs store_defs)
  from apply_error_state [OF a] apply_error_state [OF b, of "NopSenderMissing ''01''"] a b c
  show ?thesis by simp
qed

text \<open>
  C3. A store write that fails while the working set is committed is to be surfaced to
  the caller of the apply. The code drops it: \<open>SaveAccount\<close> returns the error of \<open>Put\<close>,
  and \<open>doApplyTransaction\<close> does not look at what \<open>SaveAccount\<close> returns. On a store
  whose writes fail, the nop of the existing sender \<open>01\<close> makes \<open>SaveAccount\<close> return
  the error, and both \<open>doApplyTransaction\<close> and \<open>applyTransaction\<close> return without one,
  the store being as before.
\<close>

theorem put_error_dropped:
  "fst (SaveAccount failingStore \<lparr>PublicKey = [0x01], Nonce = 6, State = Map.empty\<rparr> []) =
     Some (PutError (merge BucketAccounts [0x01])) \<and>
   doApplyTransaction \<lparr>Ledger = failingStore, services = []\<rparr> nopTx =
     (Inr [], \<lparr>Ledger = failingStore, services = []\<rparr>) \<and>
   applyTransaction 1 \<lparr>Ledger = failingStore, services = []\<rparr> nopTx =
     Some (None, \<lparr>Ledger = failingStore, services = []\<rparr>, [nopTx])"
  by (simp add: applyTransaction_def doApplyTransaction_def example_defs store_defs)

subsection \<open>The order of application\<close>

text \<open>
  C6. \<open>applyTransaction\<close> applies the tree of transactions that a transaction and its
  pending transactions form in breadth-first order: with any fuel, from any state and
  for any transaction, the queue loop returns what the application generation by
  generation returns: the same error or none, the same state, the same transactions
  applied in the same order, and it returns when and only when that one does.
\<close>

theorem breadth_first_order: "applyTransaction fuel s t = applyBreadthFirst fuel s t"
  using applyLoop_generations [of fuel s "[t]" "[]" "[]"]
  by (simp add: applyTransaction_def applyBreadthFirst_def)

text \<open>
  An instance: \<open>a\<close> emits \<open>b\<close> and \<open>c\<close>, \<open>b\<close> emits \<open>d\<close>, \<open>c\<close> emits \<open>e\<close>; the
  transactions are applied in the order \<open>a, b, c, d, e\<close>.
\<close>

lemma breadth_first_example:
  "map_option (\<lambda>r. (fst r, snd (snd r)))
     (applyTransaction 5 \<lparr>Ledger = openStore, services = [fanOut]\<rparr> (tagged ''a'')) =
   Some (None, [tagged ''a'', tagged ''b'', tagged ''c'', tagged ''d'', tagged ''e''])"
  by (simp add: applyTransaction_def eval_nat_numeral doApplyTransaction_def example_defs store_defs)

subsection \<open>Nonces\<close>

lemma storedNonce_SaveAccount:
  "\<not> put_fails s (merge BucketAccounts (PublicKey a)) \<Longrightarrow>
   storedNonce (snd (SaveAccount s a deltas)) (PublicKey a) = Some (Nonce a)"
  by (simp add: storedNonce_def LoadAccount_SaveAccount)




subsection \<open>Nop transactions\<close>

text \<open>
  C7, as stated: for every nop transaction whose sender account exists in the store, the
  apply increments the account's nonce by one and saves it. A write to the store can
  fail, and then nothing is saved: on the store whose writes fail, the nop of the
  existing sender \<open>01\<close>, whose stored nonce is 5, is applied without an error, and the
  account loaded from the store afterwards still has the nonce 5.
\<close>

theorem nop_not_saved:
  "LoadAccount failingStore [0x01] = Inr \<lparr>PublicKey = [0x01], Nonce = 5, State = Map.empty\<rparr> \<and>
   fst (doApplyTransaction \<lparr>Ledger = failingStore, services = []\<rparr> nopTx) = Inr [] \<and>
   LoadAccount (Ledger (snd (doApplyTransaction \<lparr>Ledger = failingStore, services = []\<rparr> nopTx))) [0x01] =
     Inr \<lparr>PublicKey = [0x01], Nonce = 5, State = Map.empty\<rparr> \<and>
   storedNonce (Ledger (snd (doApplyTransaction \<lparr>Ledger = failingStore, services = []\<rparr> nopTx))) [0x01]
     \<noteq> Some 6"
  by (simp add: storedNonce_def doApplyTransaction_def example_defs store_defs)

text \<open>
  C7, amended: for a nop transaction whose sender decodes to \<open>senderID\<close>: if the sender's
  account loads from the store and the write of its record succeeds, the apply returns no
  pending transaction, the account loaded from the store afterwards is the one before with
  its nonce incremented by one, and nothing else in the state has changed; if the account
  does not load, whatever the nonce of the transaction, the apply returns an error and the
  state is unchanged.
\<close>

theorem nop_transaction:
  assumes "Tag t = ''nop''" and "DecodeString (Sender t) = Inr senderID"
  shows "(LoadAccount (Ledger s) senderID = Inr a \<and>
          \<not> put_fails (Ledger s) (merge BucketAccounts senderID) \<longrightarrow>
            fst (doApplyTransaction s t) = Inr [] \<and>
            LoadAccount (Ledger (snd (doApplyTransaction s t))) senderID =
              Inr (a\<lparr>Nonce := Nonce a + 1\<rparr>) \<and>
            snd (doApplyTransaction s t) =
              s\<lparr>Ledger := (Ledger s)\<lparr>kv := (kv (Ledger s))
                   (merge BucketAccounts senderID \<mapsto> AccountBytes (Nonce a + 1) (State a))\<rparr>\<rparr>) \<and>
         (LoadAccount (Ledger s) senderID = Inl e \<longrightarrow>
            doApplyTransaction s t = (Inl (NopSenderMissing (Sender t)), s))"
proof (intro conjI impI)
  assume h: "LoadAccount (Ledger s) senderID = Inr a \<and>
          \<not> put_fails (Ledger s) (merge BucketAccounts senderID)"
  then have l: "LoadAccount (Ledger s) senderID = Inr a"
    and p: "\<not> put_fails (Ledger s) (merge BucketAccounts senderID)" by simp_all
  have eq: "doApplyTransaction s t =
      (Inr [], s\<lparr>Ledger := snd (SaveAccount (Ledger s) (a\<lparr>Nonce := Nonce a + 1\<rparr>) [])\<rparr>)"
    using l by (rule doApply_nop [OF assms])
  then show "fst (doApplyTransaction s t) = Inr []" by simp
  from l have pk: "PublicKey a = senderID" by (rule LoadAccount_PublicKey)
  with p LoadAccount_SaveAccount [of "Ledger s" "a\<lparr>Nonce := Nonce a + 1\<rparr>" "[]"]
  show "LoadAccount (Ledger (snd (doApplyTransaction s t))) senderID = Inr (a\<lparr>Nonce := Nonce a + 1\<rparr>)"
    by (simp add: eq)
  from p pk show "snd (doApplyTransaction s t) =
      s\<lparr>Ledger := (Ledger s)\<lparr>kv := (kv (Ledger s))
           (merge BucketAccounts senderID \<mapsto> AccountBytes (Nonce a + 1) (State a))\<rparr>\<rparr>"
    by (simp add: eq SaveAccount_def Put_def MarshalBinary_def)
next
  assume "LoadAccount (Ledger s) senderID = Inl e"
  then show "doApplyTransaction s t = (Inl (NopSenderMissing (Sender t)), s)"
    by (rule doApply_nop_missing [OF assms])
qed

theorem nop_transaction_witness:
  "Tag nopTx = ''nop'' \<and> DecodeString (Sender nopTx) = Inr [0x01] \<and>
   LoadAccount oneAccountStore [0x01] = Inr \<lparr>PublicKey = [0x01], Nonce = 5, State = Map.empty\<rparr> \<and>
   \<not> put_fails oneAccountStore (merge BucketAccounts [0x01]) \<and>
   fst (doApplyTransaction \<lparr>Ledger = oneAccountStore, services = []\<rparr> nopTx) = Inr [] \<and>
   LoadAccount (Ledger (snd (doApplyTransaction \<lparr>Ledger = oneAccountStore, services = []\<rparr> nopTx))) [0x01] =
     Inr \<lparr>PublicKey = [0x01], Nonce = 6, State = Map.empty\<rparr> \<and>
   LoadAccount openStore [0x01] = Inl (AccountNotFound [0x01]) \<and>
   doApplyTransaction \<lparr>Ledger = openStore, services = []\<rparr> nopTx =
     (Inl (NopSenderMissing ''01''), \<lparr>Ledger = openStore, services = []\<rparr>)"
proof -
  have g: "Tag nopTx = ''nop''" by (simp add: example_defs)
  have d: "DecodeString (Sender nopTx) = Inr [0x01]"
    by (simp add: example_defs store_defs)
  have l: "LoadAccount (Ledger \<lparr>Ledger = oneAccountStore, services = []\<rparr>) [0x01] =
      Inr \<lparr>PublicKey = [0x01], Nonce = 5, State = Map.empty\<rparr>"
    by (simp add: example_defs store_defs)
  have p: "\<not> put_fails (Ledger \<lparr>Ledger = oneAccountStore, services = []\<rparr>) (merge BucketAccounts [0x01])"
    by (simp add: example_defs)
  have m: "LoadAccount (Ledger \<lparr>Ledger = openStore, services = []\<rparr>) [0x01] =
      Inl (AccountNotFound [0x01])"
    by (simp add: example_defs store_defs)
  have s: "Sender nopTx = ''01''" by (simp add: example_defs)
  note present = nop_transaction [OF g d, THEN conjunct1, THEN mp, OF conjI [OF l p]]
  from present [THEN conjunct1]
  have "fst (doApplyTransaction \<lparr>Ledger = oneAccountStore, services = []\<rparr> nopTx) = Inr []" .
  moreover from present [THEN conjunct2, THEN conjunct1] have
    "LoadAccount (Ledger (snd (doApplyTransaction \<lparr>Ledger = oneAccountStore, services = []\<rparr> nopTx))) [0x01] =
     Inr \<lparr>PublicKey = [0x01], Nonce = 6, State = Map.empty\<rparr>"
    by simp
  moreover from nop_transaction [OF g d, THEN conjunct2, THEN mp, OF m] s
  have "doApplyTransaction \<lparr>Ledger = openStore, services = []\<rparr> nopTx =
     (Inl (NopSenderMissing ''01''), \<lparr>Ledger = openStore, services = []\<rparr>)"
    by simp
  moreover note g d l p m
  ultimately show ?thesis by simp
qed

subsection \<open>An absent sender\<close>

text \<open>
  C8, as stated: for every transaction that is no nop and whose sender has no account,
  the sender is created when the transaction's nonce is 0, and the apply fails with the
  sender-unknown error otherwise. The services run before the sender is loaded: when a
  service returns an error, the apply fails with that error, for the nonce 7 (where the
  error is not the sender-unknown one) and for the nonce 0 (where no sender is created).
\<close>

theorem service_error_first:
  "doApplyTransaction \<lparr>Ledger = openStore, services = [abortingService]\<rparr> lateTx =
     (Inl (ServiceError ''abort''), \<lparr>Ledger = openStore, services = [abortingService]\<rparr>) \<and>
   fst (doApplyTransaction \<lparr>Ledger = openStore, services = [abortingService]\<rparr> lateTx) \<noteq>
     Inl (SenderMissing ''01'') \<and>
   doApplyTransaction \<lparr>Ledger = openStore, services = [abortingService]\<rparr> transferTx =
     (Inl (ServiceError ''abort''), \<lparr>Ledger = openStore, services = [abortingService]\<rparr>)"
  by (simp add: doApplyTransaction_def example_defs store_defs)

text \<open>
  C8, amended: for a transaction that is no nop, whose sender has no account that loads
  and whose services have all run without an error: if the transaction's nonce is 0, the
  apply goes on with a fresh sender account and returns the pending transactions, and
  after a write that succeeds the sender's stored nonce is 1; otherwise the apply fails
  with the sender-unknown error and the state is unchanged.
\<close>

theorem absent_sender:
  assumes "Tag t \<noteq> ''nop''" and "DecodeString (Sender t) = Inr senderID"
    and "LoadAccount (Ledger s) senderID = Inl e"
    and "runServices (services s) (Ledger s) t [] [] = Inr (deltas, pending)"
  shows "(TxNonce t = 0 \<longrightarrow>
            fst (doApplyTransaction s t) = Inr pending \<and>
            (\<not> put_fails (Ledger s) (merge BucketAccounts senderID) \<longrightarrow>
               storedNonce (Ledger (snd (doApplyTransaction s t))) senderID = Some 1)) \<and>
         (TxNonce t \<noteq> 0 \<longrightarrow>
            doApplyTransaction s t = (Inl (SenderMissing (Sender t)), s))"
proof (intro conjI impI)
  assume z: "TxNonce t = 0"
  with assms(3) have eq: "doApplyTransaction s t =
      (Inr pending, s\<lparr>Ledger := snd (SaveAccount (Ledger s)
         ((NewAccount senderID)\<lparr>Nonce := Nonce (NewAccount senderID) + 1\<rparr>) [])\<rparr>)"
    by (intro doApply_commit [OF assms(1,2,4)]) simp
  then show "fst (doApplyTransaction s t) = Inr pending" by simp
  assume "\<not> put_fails (Ledger s) (merge BucketAccounts senderID)"
  with storedNonce_SaveAccount [of "Ledger s"
      "(NewAccount senderID)\<lparr>Nonce := Nonce (NewAccount senderID) + 1\<rparr>" "[]"]
  show "storedNonce (Ledger (snd (doApplyTransaction s t))) senderID = Some 1"
    by (simp add: eq NewAccount_def)
next
  assume "TxNonce t \<noteq> 0"
  then show "doApplyTransaction s t = (Inl (SenderMissing (Sender t)), s)"
    by (rule doApply_sender_missing [OF assms(1,2,4,3)])
qed

theorem absent_sender_witness:
  "Tag transferTx \<noteq> ''nop'' \<and> DecodeString (Sender transferTx) = Inr [0x01] \<and>
   Tag lateTx \<noteq> ''nop'' \<and> DecodeString (Sender lateTx) = Inr [0x01] \<and>
   LoadAccount openStore [0x01] = Inl (AccountNotFound [0x01]) \<and>
   runServices [emitPendingNop] openStore transferTx [] [] =
     Inr ([], [\<lparr>Sender = ''02'', Tag = ''nop'', TxNonce = 0, Payload = []\<rparr>]) \<and>
   runServices [emitPendingNop] openStore lateTx [] [] =
     Inr ([], [\<lparr>Sender = ''02'', Tag = ''nop'', TxNonce = 0, Payload = []\<rparr>]) \<and>
   TxNonce transferTx = 0 \<and> TxNonce lateTx \<noteq> 0 \<and>
   \<not> put_fails openStore (merge BucketAccounts [0x01]) \<and>
   fst (doApplyTransaction \<lparr>Ledger = openStore, services = [emitPendingNop]\<rparr> transferTx) =
     Inr [\<lparr>Sender = ''02'', Tag = ''nop'', TxNonce = 0, Payload = []\<rparr>] \<and>
   storedNonce
     (Ledger (snd (doApplyTransaction \<lparr>Ledger = openStore, services = [emitPendingNop]\<rparr> transferTx)))
     [0x01] = Some 1 \<and>
   doApplyTransaction \<lparr>Ledger = openStore, services = [emitPendingNop]\<rparr> lateTx =
     (Inl (SenderMissing ''01''), \<lparr>Ledger = openStore, services = [emitPendingNop]\<rparr>)"
proof -
  let ?s = "\<lparr>Ledger = openStore, services = [emitPendingNop]\<rparr>"
  let ?n = "\<lparr>Sender = ''02'', Tag = ''nop'', TxNonce = 0, Payload = []\<rparr>"
  have g1: "Tag transferTx \<noteq> ''nop''" and g2: "Tag lateTx \<noteq> ''nop''"
    by (simp_all add: example_defs)
  have d1: "DecodeString (Sender transferTx) = Inr [0x01]"
    and d2: "DecodeString (Sender lateTx) = Inr [0x01]"
    by (simp_all add: example_defs store_defs)
  have m: "LoadAccount (Ledger ?s) [0x01] = Inl (AccountNotFound [0x01])"
    by (simp add: example_defs store_defs)
  have r1: "runServices (services ?s) (Ledger ?s) transferTx [] [] = Inr ([], [?n])"
    and r2: "runServices (services ?s) (Ledger ?s) lateTx [] [] = Inr ([], [?n])"
    by (simp_all add: emitPendingNop_def)
  have n: "TxNonce transferTx = 0" "TxNonce lateTx \<noteq> 0"
    by (simp_all add: example_defs)
  have sd: "Sender lateTx = ''01''"
    by (simp add: example_defs)
  have p: "\<not> put_fails (Ledger ?s) (merge BucketAccounts [0x01])"
    by (simp add: example_defs)
  note fresh = absent_sender [OF g1 d1 m r1, THEN conjunct1, THEN mp, OF n(1)]
  note missing = absent_sender [OF g2 d2 m r2, THEN conjunct2, THEN mp, OF n(2)]
  from fresh have "fst (doApplyTransaction ?s transferTx) = Inr [?n]" by simp
  moreover from fresh [THEN conjunct2, THEN mp, OF p]
  have "storedNonce (Ledger (snd (doApplyTransaction ?s transferTx))) [0x01] = Some 1" .
  moreover from missing sd
  have "doApplyTransaction ?s lateTx = (Inl (SenderMissing ''01''), ?s)" by simp
  moreover note g1 g2 d1 d2 m r1 r2 n p
  ultimately show ?thesis by simp
qed


section \<open>Properties of the peer protocol handlers\<close>

subsection \<open>Auxiliary facts\<close>

declare chunkLoop.simps [simp del]
declare chunksOf.simps [simp del]

lemma chunksOf_Nil: "chunksOf n [] = []"
  by (subst chunksOf.simps) simp

lemma concat_chunksOf: "0 < n \<Longrightarrow> concat (chunksOf n bs) = bs"
proof (induction n bs rule: chunksOf.induct)
  case (1 n bs)
  then show ?case by (subst chunksOf.simps) auto
qed

lemma chunksOf_length: "c \<in> set (chunksOf n bs) \<Longrightarrow> 0 < length c \<and> length c \<le> n"
proof (induction n bs rule: chunksOf.induct)
  case (1 n bs)
  from 1(2) have ne: "\<not> (n = 0 \<or> bs = [])"
    by (subst (asm) chunksOf.simps) (auto split: if_splits)
  with 1(2) have "c = take n bs \<or> c \<in> set (chunksOf n (drop n bs))"
    by (subst (asm) chunksOf.simps) auto
  then show ?case
  proof
    assume "c = take n bs"
    with ne show ?thesis by auto
  next
    assume "c \<in> set (chunksOf n (drop n bs))"
    with 1(1) ne show ?thesis by blast
  qed
qed

lemma slice_chunk:
  assumes "i < length bs"
  shows "slice bs i (if i + n > length bs then length bs else i + n) = take n (drop i bs)"
  using assms by (auto simp: slice_def)

lemma chunkLoop_chunks:
  "chunkLoop Sum256 bs i c hs =
     (fold (\<lambda>chunk c. put c (Sum256 chunk) chunk) (chunksOf syncChunkSize (drop i bs)) c,
      hs @ map Sum256 (chunksOf syncChunkSize (drop i bs)))"
proof (induction Sum256 bs i c hs rule: chunkLoop.induct)
  case (1 Sum256 bs i c hs)
  show ?case
  proof (cases "i < length bs")
    case True
    have sz: "syncChunkSize \<noteq> 0" by (simp add: syncChunkSize_def)
    have ch: "chunksOf syncChunkSize (drop i bs) =
        take syncChunkSize (drop i bs) # chunksOf syncChunkSize (drop (i + syncChunkSize) bs)"
      using True sz by (subst chunksOf.simps) (simp add: add.commute)
    have sl: "slice bs i (if i + syncChunkSize > length bs then length bs else i + syncChunkSize)
        = take syncChunkSize (drop i bs)"
      using True by (rule slice_chunk)
    show ?thesis
      using True 1 [OF True refl refl refl] sl
      by (subst chunkLoop.simps) (simp add: ch Let_def)
  next
    case False
    then show ?thesis
      by (subst chunkLoop.simps) (simp add: chunksOf_Nil)
  qed
qed

lemma hashed_put: "hashed Sum256 c \<Longrightarrow> hashed Sum256 (put c (Sum256 v) v)"
  by (auto simp: hashed_def put_def list_all_iff dest!: in_set_takeD)

lemma hashed_fold_put:
  "hashed Sum256 c \<Longrightarrow> hashed Sum256 (fold (\<lambda>chunk c. put c (Sum256 chunk) chunk) chunks c)"
  by (induction chunks arbitrary: c) (simp_all add: hashed_put)

lemma hashed_load: "hashed Sum256 c \<Longrightarrow> hashed Sum256 (snd (load c h))"
  by (auto simp: hashed_def load_def list_all_iff split: option.splits dest!: map_of_SomeD)

lemma load_hashed: "hashed Sum256 c \<Longrightarrow> load c h = (Some v, c') \<Longrightarrow> Sum256 v = h"
  by (auto simp: hashed_def load_def list_all_iff split: option.splits dest!: map_of_SomeD)

lemma hashed_metadata:
  "hashed Sum256 c \<Longrightarrow> hashed Sum256 (snd (handleSyncDiffMetadataRequest ops Sum256 ledger req c))"
  by (simp add: handleSyncDiffMetadataRequest_def chunkLoop_chunks hashed_fold_put Let_def)

lemma hashed_chunk:
  "hashed Sum256 c \<Longrightarrow> hashed Sum256 (snd (handleSyncDiffChunkRequest req c))"
  using hashed_load [of Sum256 c "req_chunkHash req"]
  by (auto simp: handleSyncDiffChunkRequest_def split: prod.splits option.splits)

lemma hashed_serveSync:
  "hashed Sum256 c \<Longrightarrow> hashed Sum256 (serveSync ops Sum256 c reqs)"
  by (induction ops Sum256 c reqs rule: serveSync.induct)
     (simp_all add: hashed_metadata hashed_chunk)

lemma hashed_newLRU: "hashed Sum256 (newLRU n)"
  by (simp add: hashed_def newLRU_def)

lemma chunk_request_resident:
  assumes "hashed Sum256 c" "resident c h"
  shows "res_found (fst (handleSyncDiffChunkRequest \<lparr>req_chunkHash = h\<rparr> c)) \<and>
         Sum256 (res_diff (fst (handleSyncDiffChunkRequest \<lparr>req_chunkHash = h\<rparr> c))) = h"
proof -
  from assms(2) obtain v where v: "map_of (entries c) h = Some v"
    by (auto simp: resident_def)
  then have "load c h = (Some v, c\<lparr>entries := (h, v) # filter (\<lambda>e. fst e \<noteq> h) (entries c)\<rparr>)"
    by (simp add: load_def)
  moreover from this assms(1) have "Sum256 v = h" by (rule load_hashed [rotated])
  ultimately show ?thesis by (simp add: handleSyncDiffChunkRequest_def)
qed

subsection \<open>Sync diff\<close>

text \<open>
  C9. On the cache of a peer, which starts empty with capacity 1024 and changes only as
  the sync-diff requests of the peer are served: a metadata request splits the diff into
  consecutive chunks (their concatenation is the diff) of at most 1,048,576 bytes each,
  and the hashes it returns are, in order, the hashes of these chunks; a chunk request for
  a hash that is resident in the cache returns \<open>found = true\<close> and bytes whose hash is the
  requested one.
\<close>

theorem sync_diff_chunks:
  assumes "chunkCache = serveSync ops Sum256 (newLRU 1024) reqs"
  shows "(let bs = DumpDiff ops ledger (req_viewID req);
              chunks = chunksOf syncChunkSize bs;
              res = fst (handleSyncDiffMetadataRequest ops Sum256 ledger req chunkCache)
          in concat chunks = bs \<and>
             (\<forall>chunk \<in> set chunks. length chunk \<le> 1048576) \<and>
             res_chunkHashes res = map Sum256 chunks) \<and>
         (resident chunkCache h \<longrightarrow>
            (let res = fst (handleSyncDiffChunkRequest \<lparr>req_chunkHash = h\<rparr> chunkCache)
             in res_found res \<and> Sum256 (res_diff res) = h))"
proof
  have "0 < syncChunkSize" by (simp add: syncChunkSize_def)
  then have "concat (chunksOf syncChunkSize (DumpDiff ops ledger (req_viewID req))) =
      DumpDiff ops ledger (req_viewID req)"
    by (rule concat_chunksOf)
  moreover have "\<forall>chunk \<in> set (chunksOf syncChunkSize (DumpDiff ops ledger (req_viewID req))).
      length chunk \<le> 1048576"
    using chunksOf_length [of _ syncChunkSize] by (auto simp: syncChunkSize_def)
  moreover have "res_chunkHashes (fst (handleSyncDiffMetadataRequest ops Sum256 ledger req chunkCache)) =
      map Sum256 (chunksOf syncChunkSize (DumpDiff ops ledger (req_viewID req)))"
    by (simp add: handleSyncDiffMetadataRequest_def chunkLoop_chunks Let_def)
  ultimately show "let bs = DumpDiff ops ledger (req_viewID req);
              chunks = chunksOf syncChunkSize bs;
              res = fst (handleSyncDiffMetadataRequest ops Sum256 ledger req chunkCache)
          in concat chunks = bs \<and>
             (\<forall>chunk \<in> set chunks. length chunk \<le> 1048576) \<and>
             res_chunkHashes res = map Sum256 chunks"
    by (simp add: Let_def)
next
  from assms have "hashed Sum256 chunkCache"
    by (simp add: hashed_serveSync hashed_newLRU)
  then show "resident chunkCache h \<longrightarrow>
            (let res = fst (handleSyncDiffChunkRequest \<lparr>req_chunkHash = h\<rparr> chunkCache)
             in res_found res \<and> Sum256 (res_diff res) = h)"
    using chunk_request_resident [of Sum256 chunkCache h] by (simp add: Let_def)
qed

lemma chunksOf_example: "chunksOf syncChunkSize [7, 8, 9] = [[7, 8, 9]]"
  by (simp add: syncChunkSize_def chunksOf.simps [of 1048576])

theorem sync_diff_chunks_witness:
  "\<lparr>capacity = 1024, entries = [([3], [7, 8, 9])]\<rparr> =
     serveSync rootLedger lengthSum (newLRU 1024) [DiffMetadata ourRoot \<lparr>req_viewID = 0\<rparr>] \<and>
   DumpDiff rootLedger ourRoot 0 = [7, 8, 9] \<and>
   chunksOf syncChunkSize [7, 8, 9] = [[7, 8, 9]] \<and>
   res_chunkHashes (fst (handleSyncDiffMetadataRequest rootLedger lengthSum ourRoot \<lparr>req_viewID = 0\<rparr>
      \<lparr>capacity = 1024, entries = [([3], [7, 8, 9])]\<rparr>)) = [lengthSum [7, 8, 9]] \<and>
   resident \<lparr>capacity = 1024, entries = [([3], [7, 8, 9])]\<rparr> [3] \<and>
   res_found (fst (handleSyncDiffChunkRequest \<lparr>req_chunkHash = [3]\<rparr>
      \<lparr>capacity = 1024, entries = [([3], [7, 8, 9])]\<rparr>)) \<and>
   lengthSum (res_diff (fst (handleSyncDiffChunkRequest \<lparr>req_chunkHash = [3]\<rparr>
      \<lparr>capacity = 1024, entries = [([3], [7, 8, 9])]\<rparr>))) = [3]"
proof -
  let ?c = "\<lparr>capacity = 1024, entries = [([3], [7, 8, 9])]\<rparr>"
  have dd: "DumpDiff rootLedger ourRoot 0 = [7, 8, 9]"
    by (simp add: rootLedger_def)
  have r: "?c = serveSync rootLedger lengthSum (newLRU 1024) [DiffMetadata ourRoot \<lparr>req_viewID = 0\<rparr>]"
    by (simp add: handleSyncDiffMetadataRequest_def chunkLoop_chunks dd chunksOf_example
        put_def newLRU_def lengthSum_def)
  have h: "resident ?c [3]" by (simp add: resident_def)
  note w = sync_diff_chunks [OF r, where ledger = ourRoot and req = "\<lparr>req_viewID = 0\<rparr>" and h = "[3]"]
  from w [THEN conjunct1]
  have "res_chunkHashes (fst (handleSyncDiffMetadataRequest rootLedger lengthSum ourRoot
      \<lparr>req_viewID = 0\<rparr> ?c)) = [lengthSum [7, 8, 9]]"
    by (simp add: Let_def dd chunksOf_example)
  moreover from w [THEN conjunct2, THEN mp, OF h]
  have "res_found (fst (handleSyncDiffChunkRequest \<lparr>req_chunkHash = [3]\<rparr> ?c)) \<and>
      lengthSum (res_diff (fst (handleSyncDiffChunkRequest \<lparr>req_chunkHash = [3]\<rparr> ?c))) = [3]"
    by (simp add: Let_def)
  moreover note r dd chunksOf_example h
  ultimately show ?thesis by simp
qed

text \<open>
  An instance with more than one chunk: a diff of 3 MiB is answered with three hashes, and
  a diff of 3 MiB and 5 bytes has three chunks of 1 MiB and one of 5 bytes.
\<close>

lemma three_mebibytes_three_hashes:
  assumes "DumpDiff ops ledger (req_viewID req) = replicate 3145728 b"
  shows "length (res_chunkHashes (fst (handleSyncDiffMetadataRequest ops Sum256 ledger req c))) = 3"
  using assms
  by (simp add: handleSyncDiffMetadataRequest_def chunkLoop_chunks
      chunksOf.simps [of _ "replicate n b" for n] syncChunkSize_def chunksOf_Nil)

lemma chunksOf_last_shorter:
  "map length (chunksOf syncChunkSize (replicate 3145733 b)) = [1048576, 1048576, 1048576, 5]"
  by (simp add: chunksOf.simps [of _ "replicate n b" for n] syncChunkSize_def chunksOf_Nil)

subsection \<open>Query\<close>

text \<open>
  C10. A query request received while the broadcaster is paused is answered with the zero
  response, which has no preferred transaction; \<open>ReceiveTransaction\<close> is not called and
  the ledger is as before.
\<close>

theorem paused_query:
  "handleQueryRequest ops True ledger req = (\<lparr>res_preferred = None\<rparr>, ledger, [])"
  by (simp add: handleQueryRequest_def)

subsection \<open>Sync view\<close>

text \<open>
  C4, as stated: the handler replies with our root when the syncer has no preferred root,
  and it records the peer's root in every case. With no preferred root, our view id 1
  and a peer's root of view id 2 that is valid, the reply is the peer's root, not ours;
  and when the peer's root is not valid, the handler returns before it adopts or records
  anything.
\<close>

theorem sync_view_peer_root:
  "handleSyncViewRequest rootLedger acceptAll ourRoot noPreference [0x50] \<lparr>req_root = peerRoot\<rparr> =
     (\<lparr>res_root = Some peerRoot\<rparr>,
      \<lparr>resolverPreferred = Some peerRoot, recordedRoots = [([0x50], [0x0B])]\<rparr>) \<and>
   Some peerRoot \<noteq> Some (Root rootLedger ourRoot) \<and>
   handleSyncViewRequest rootLedger rejectAll ourRoot noPreference [0x50] \<lparr>req_root = peerRoot\<rparr> =
     (\<lparr>res_root = Some ourRoot\<rparr>, \<lparr>resolverPreferred = None, recordedRoots = []\<rparr>)"
  by (simp add: handleSyncViewRequest_def rootLedger_def acceptAll_def rejectAll_def ourRoot_def
      peerRoot_def noPreference_def Prefer_def recordRootFromAccount_def)

text \<open>
  C4, amended: the handler replies with the syncer's preferred root when there is one.
  When there is none, it replies with the peer's root if that root is valid and its view
  id exceeds ours, and it adopts the peer's root as preferred then; it replies with our
  root otherwise. The peer's root is recorded when, and only when, it is valid.
\<close>

theorem sync_view_reply:
  "handleSyncViewRequest ops AssertValidTransaction ledger sy peerID req =
     (let adopt = (AssertValidTransaction (req_root req) \<and> resolverPreferred sy = None \<and>
                   LedgerViewID ops ledger < ViewID (req_root req))
      in (\<lparr>res_root =
             (case resolverPreferred sy of
                Some p \<Rightarrow> Some p
              | None \<Rightarrow> if adopt then Some (req_root req) else Some (Root ops ledger))\<rparr>,
          sy\<lparr>resolverPreferred :=
                if adopt then Some (req_root req) else resolverPreferred sy,
              recordedRoots :=
                if AssertValidTransaction (req_root req)
                then recordedRoots sy @ [(peerID, ID (req_root req))]
                else recordedRoots sy\<rparr>))"
  by (cases "resolverPreferred sy")
     (simp_all add: handleSyncViewRequest_def Prefer_def recordRootFromAccount_def Let_def)


end
